theory Spec2Isabelle
  imports Main "HOL-Library.AList"
begin

section \<open>JavaScript values used by the configuration code\<close>

text \<open>
  A field of the configuration object holds a boolean, a string, a number, \<open>null\<close>, a
  \<open>Date\<close>, or nothing at all (\<open>undefined\<close>, which is also what reading an absent
  property gives).

  Numbers: \<open>Finite n\<close> is the double whose value is the integer \<open>n\<close>, for \<open>n\<close> in the
  range where JavaScript prints a number as its plain decimal numeral (zero of either
  sign is \<open>Finite 0\<close>); \<open>NaN\<close> is the not-a-number value (the only number besides zero
  that is falsy, and what \<open>getHours\<close> returns on an invalid date); \<open>OtherNumber txt\<close> is
  any other number (a fraction, an integer outside that range, an infinity), named by the
  text \<open>txt\<close> that \<open>String\<close> prints for it, which tells such numbers apart. None of
  them is zero, so all of them are truthy.

  Dates: \<open>Date h m txt\<close> is a valid date whose local wall-clock time is \<open>h\<close> hours and \<open>m\<close>
  minutes, and whose \<open>toString()\<close> text is \<open>txt\<close> (it depends on the day and the time
  zone, which this code never inspects); \<open>InvalidDate\<close> is the date object of an
  unparsable time.
\<close>

datatype jsnum = Finite int | NaN | OtherNumber string

datatype jsdate = Date nat nat string | InvalidDate

datatype jsval =
    JUndefined
  | JNull
  | JBool bool
  | JNum jsnum
  | JStr string
  | JDate jsdate

datatype error = TypeError

subsection \<open>Number and date primitives\<close>

definition digit_char :: "nat \<Rightarrow> char" where
  "digit_char d = ''0123456789'' ! (d mod 10)"

fun decimal :: "nat \<Rightarrow> string" where
  "decimal n = (if n < 10 then [digit_char n] else decimal (n div 10) @ [digit_char n])"

declare decimal.simps [simp del]

text \<open>\<open>String(n)\<close> on a number.\<close>

fun Number_toString :: "jsnum \<Rightarrow> string" where
  "Number_toString NaN = ''NaN''"
| "Number_toString (Finite i) = (if i < 0 then ''-'' @ decimal (nat (- i)) else decimal (nat i))"
| "Number_toString (OtherNumber txt) = txt"

fun getHours :: "jsdate \<Rightarrow> jsnum" where
  "getHours (Date h m txt) = Finite (int h)"
| "getHours InvalidDate = NaN"

fun getMinutes :: "jsdate \<Rightarrow> jsnum" where
  "getMinutes (Date h m txt) = Finite (int m)"
| "getMinutes InvalidDate = NaN"

fun Date_toString :: "jsdate \<Rightarrow> string" where
  "Date_toString (Date h m txt) = txt"
| "Date_toString InvalidDate = ''Invalid Date''"

text \<open>\<open>s.padStart(n, c)\<close> with a one-character filler.\<close>

definition padStart :: "nat \<Rightarrow> char \<Rightarrow> string \<Rightarrow> string" where
  "padStart n c s = replicate (n - length s) c @ s"

subsection \<open>Conversions\<close>

text \<open>What a template literal \<open>`${v}`\<close> inserts for \<open>v\<close>.\<close>

fun ToString :: "jsval \<Rightarrow> string" where
  "ToString JUndefined = ''undefined''"
| "ToString JNull = ''null''"
| "ToString (JBool b) = (if b then ''true'' else ''false'')"
| "ToString (JNum n) = Number_toString n"
| "ToString (JStr s) = s"
| "ToString (JDate d) = Date_toString d"

text \<open>Truthiness: what \<open>v ? a : b\<close>, \<open>!v\<close>, \<open>v && w\<close> and \<open>if (v)\<close> test.\<close>

fun ToBoolean :: "jsval \<Rightarrow> bool" where
  "ToBoolean JUndefined = False"
| "ToBoolean JNull = False"
| "ToBoolean (JBool b) = b"
| "ToBoolean (JNum n) = (n \<noteq> Finite 0 \<and> n \<noteq> NaN)"
| "ToBoolean (JStr s) = (s \<noteq> [])"
| "ToBoolean (JDate d) = True"

text \<open>\<open>xs.join(sep)\<close> on an array of strings.\<close>

fun join :: "string \<Rightarrow> string list \<Rightarrow> string" where
  "join sep [] = []"
| "join sep [x] = x"
| "join sep (x # y # ys) = x @ sep @ join sep (y # ys)"

subsection \<open>Objects\<close>

text \<open>
  A plain object is the list of its own properties in insertion order; a property name
  occurs once. Reading an absent property gives \<open>undefined\<close>; an assignment replaces the
  value of a present property in place and appends an absent one.
\<close>

type_synonym jsobject = "(string \<times> jsval) list"

definition get :: "jsobject \<Rightarrow> string \<Rightarrow> jsval" where
  "get obj key = (case map_of obj key of None \<Rightarrow> JUndefined | Some v \<Rightarrow> v)"

definition put :: "jsobject \<Rightarrow> string \<Rightarrow> jsval \<Rightarrow> jsobject" where
  "put obj key v = AList.update key v obj"

definition Object_keys :: "jsobject \<Rightarrow> string list" where
  "Object_keys obj = map fst obj"

section \<open>The action creators\<close>

record 'c action =
  type :: string
  config :: 'c

text \<open>
  The action-type constants \<open>types.SET_JSON_CONFIG\<close> and \<open>types.SET_PYTHON_CONFIG\<close>
  come from a module that is not part of the sources at hand; every definition that uses
  one takes it as its first argument.
\<close>

definition setJsonConfigSuccess :: "string \<Rightarrow> 'c \<Rightarrow> 'c action" where
  "setJsonConfigSuccess SET_JSON_CONFIG cfg = \<lparr>type = SET_JSON_CONFIG, config = cfg\<rparr>"

definition setJsonConfig :: "string \<Rightarrow> 'c \<Rightarrow> ('c action \<Rightarrow> 'r) \<Rightarrow> 'r" where
  "setJsonConfig SET_JSON_CONFIG cfg dispatch = dispatch (setJsonConfigSuccess SET_JSON_CONFIG cfg)"

definition setPythonConfigSuccess :: "string \<Rightarrow> 'c \<Rightarrow> 'c action" where
  "setPythonConfigSuccess SET_PYTHON_CONFIG cfg = \<lparr>type = SET_PYTHON_CONFIG, config = cfg\<rparr>"

subsection \<open>The general pass\<close>

text \<open>
  The \<open>switch\<close> of the reducing callback compares \<open>config[key]\<close> with \<open>true\<close>, \<open>false\<close>
  and \<open>null\<close> by strict equality and picks the value stored under \<open>key\<close>.
\<close>

fun normalized :: "jsval \<Rightarrow> jsval" where
  "normalized (JBool True) = JStr ''True''"
| "normalized (JBool False) = JStr ''False''"
| "normalized JNull = JStr ''''"
| "normalized v = v"

definition reducer :: "jsobject \<Rightarrow> jsobject \<Rightarrow> string \<Rightarrow> jsobject" where
  "reducer cfg temp key = put temp key (normalized (get cfg key))"

definition configTemp :: "jsobject \<Rightarrow> jsobject" where
  "configTemp cfg = foldl (reducer cfg) [] (Object_keys cfg)"

subsection \<open>The field-specific values\<close>

text \<open>
  The four time values are computed from the raw field by the same expression:
  a falsy field gives the empty text, anything else is asked for \<open>getHours()\<close> and
  \<open>getMinutes()\<close>, which only a date object has; calling the missing method of a
  boolean, a number or a string throws a \<open>TypeError\<close>.
\<close>

definition timeText :: "jsval \<Rightarrow> error + string" where
  "timeText v =
     (if ToBoolean v then
        (case v of
           JDate d \<Rightarrow> Inr (padStart 2 CHR ''0'' (Number_toString (getHours d)) @
                           padStart 2 CHR ''0'' (Number_toString (getMinutes d)))
         | _ \<Rightarrow> Inl TypeError)
      else Inr '''')"

text \<open>The three node pairs are read from the normalised object, again by one expression.\<close>

definition groupNodes :: "jsobject \<Rightarrow> string \<Rightarrow> string \<Rightarrow> string" where
  "groupNodes temp node1 node2 =
     (if ToBoolean (get temp node1) \<and> ToBoolean (get temp node2)
      then ToString (get temp node1) @ '','' @ ToString (get temp node2)
      else '''')"

text \<open>The option tags are pushed one after the other, each under a test of the raw field.\<close>

definition combatOptions :: "jsobject \<Rightarrow> string list" where
  "combatOptions cfg =
     (let opts = [];
          opts = (if ToBoolean (get cfg ''combatOptionCheckFatigue'') then opts @ [''CheckFatigue''] else opts);
          opts = (if ToBoolean (get cfg ''combatOptionReserveDocks'') then opts @ [''ReserveDocks''] else opts);
          opts = (if ToBoolean (get cfg ''combatOptionPortCheck'') then opts @ [''PortCheck''] else opts);
          opts = (if ToBoolean (get cfg ''combatOptionClearStop'') then opts @ [''ClearStop''] else opts)
      in opts)"

text \<open>One of the six \<open>if\<close> statements that blank a ship-switcher slot in the normalised object.\<close>

definition blankSlot :: "string \<Rightarrow> string \<Rightarrow> jsobject \<Rightarrow> jsobject" where
  "blankSlot criteria ships temp =
     (if \<not> ToBoolean (get temp criteria) \<or> \<not> ToBoolean (get temp ships)
      then put (put temp criteria (JStr '''')) ships (JStr '''')
      else temp)"

definition blankSlots :: "jsobject \<Rightarrow> jsobject" where
  "blankSlots temp =
     blankSlot ''shipSwitcherSlot6Criteria'' ''shipSwitcherSlot6Ships''
    (blankSlot ''shipSwitcherSlot5Criteria'' ''shipSwitcherSlot5Ships''
    (blankSlot ''shipSwitcherSlot4Criteria'' ''shipSwitcherSlot4Ships''
    (blankSlot ''shipSwitcherSlot3Criteria'' ''shipSwitcherSlot3Ships''
    (blankSlot ''shipSwitcherSlot2Criteria'' ''shipSwitcherSlot2Ships''
    (blankSlot ''shipSwitcherSlot1Criteria'' ''shipSwitcherSlot1Ships'' temp)))))"

subsection \<open>The serialised lines\<close>

text \<open>
  The body of the thunk returned by \<open>setPythonConfig\<close>, up to the array \<open>pythonConfig\<close>:
  the statements in source order, an exception of a time value ending the run.
\<close>

definition pythonConfigLines :: "jsobject \<Rightarrow> error + string list" where
  "pythonConfigLines cfg =
    (let temp = configTemp cfg in
     (case timeText (get cfg ''scheduledSleepSleepStartTime'') of Inl e \<Rightarrow> Inl e
      | Inr scheduledSleepSleepStartTime \<Rightarrow>
     (case timeText (get cfg ''scheduledSleepExpeditionSleepStartTime'') of Inl e \<Rightarrow> Inl e
      | Inr scheduledSleepExpeditionSleepStartTime \<Rightarrow>
     (case timeText (get cfg ''scheduledSleepCombatSleepStartTime'') of Inl e \<Rightarrow> Inl e
      | Inr scheduledSleepCombatSleepStartTime \<Rightarrow>
     (case timeText (get cfg ''combatRepairTimeLimit'') of Inl e \<Rightarrow> Inl e
      | Inr combatRepairTimeLimit \<Rightarrow>
     (let combatLBASGroup1Nodes = groupNodes temp ''combatLBASGroup1Node1'' ''combatLBASGroup1Node2'';
          combatLBASGroup2Nodes = groupNodes temp ''combatLBASGroup2Node1'' ''combatLBASGroup2Node2'';
          combatLBASGroup3Nodes = groupNodes temp ''combatLBASGroup3Node1'' ''combatLBASGroup3Node2'';
          opts = combatOptions cfg;
          temp = blankSlots temp
      in Inr
       [''[General]'',
        ''Program: '' @ ToString (get temp ''generalProgram''),
        ''JSTOffset: '' @ ToString (get temp ''generalJSTOffset''),
        ''Pause: '' @ ToString (get temp ''generalPause''),
        '''',
        ''[ScheduledSleep]'',
        ''SleepEnabled: '' @ ToString (get temp ''scheduledSleepSleepEnabled''),
        ''SleepStartTime: '' @ scheduledSleepSleepStartTime,
        ''SleepLength: '' @ ToString (get temp ''scheduledSleepSleepLength''),
        ''ExpeditionSleepEnabled: '' @ ToString (get temp ''scheduledSleepExpeditionSleepEnabled''),
        ''ExpeditionSleepStartTime: '' @ scheduledSleepExpeditionSleepStartTime,
        ''ExpeditionSleepLength: '' @ ToString (get temp ''scheduledSleepExpeditionSleepLength''),
        ''CombatSleepEnabled: '' @ ToString (get temp ''scheduledSleepCombatSleepEnabled''),
        ''CombatSleepStartTime: '' @ scheduledSleepCombatSleepStartTime,
        ''CombatSleepLength: '' @ ToString (get temp ''scheduledSleepCombatSleepLength''),
        '''',
        ''[Expeditions]'',
        ''Enabled: '' @ ToString (get temp ''expeditionsEnabled''),
        ''Fleet2: '' @ ToString (get temp ''expeditionsFleet2''),
        ''Fleet3: '' @ ToString (get temp ''expeditionsFleet3''),
        ''Fleet4: '' @ ToString (get temp ''expeditionsFleet4''),
        '''',
        ''[PvP]'',
        ''Enabled: '' @ ToString (get temp ''pvpEnabled''),
        '''',
        ''[Combat]'',
        ''Enabled: '' @ ToString (get temp ''combatEnabled''),
        ''Engine: '' @ ToString (get temp ''combatEngine''),
        ''Map: '' @ ToString (get temp ''combatMap''),
        ''FleetMode: '' @ ToString (get temp ''combatFleetMode''),
        ''CombatNodes: '' @ ToString (get temp ''combatCombatNodes''),
        ''NodeSelects: '' @ ToString (get temp ''combatNodeSelects''),
        ''Formations: '' @ ToString (get temp ''combatFormations''),
        ''NightBattles: '' @ ToString (get temp ''combatNightBattles''),
        ''RetreatLimit: '' @ ToString (get temp ''combatRetreatLimit''),
        ''RepairLimit: '' @ ToString (get temp ''combatRepairLimit''),
        ''RepairTimeLimit: '' @ combatRepairTimeLimit,
        ''LBASGroups: '' @ ToString (get temp ''combatLBASGroups''),
        ''LBASGroup1Nodes: '' @ combatLBASGroup1Nodes,
        ''LBASGroup2Nodes: '' @ combatLBASGroup2Nodes,
        ''LBASGroup3Nodes: '' @ combatLBASGroup3Nodes,
        ''ForceRetreatNodes: '' @ ToString (get temp ''combatForceRetreatNodes''),
        ''MiscOptions: '' @ join '','' opts,
        '''',
        ''[ShipSwitcher]'',
        ''Enabled: '' @ ToString (get temp ''shipSwitcherEnabled''),
        ''Slot1Criteria: '' @ ToString (get temp ''shipSwitcherSlot1Criteria''),
        ''Slot1Ships: '' @ ToString (get temp ''shipSwitcherSlot1Ships''),
        ''Slot2Criteria: '' @ ToString (get temp ''shipSwitcherSlot2Criteria''),
        ''Slot2Ships: '' @ ToString (get temp ''shipSwitcherSlot2Ships''),
        ''Slot3Criteria: '' @ ToString (get temp ''shipSwitcherSlot3Criteria''),
        ''Slot3Ships: '' @ ToString (get temp ''shipSwitcherSlot3Ships''),
        ''Slot4Criteria: '' @ ToString (get temp ''shipSwitcherSlot4Criteria''),
        ''Slot4Ships: '' @ ToString (get temp ''shipSwitcherSlot4Ships''),
        ''Slot5Criteria: '' @ ToString (get temp ''shipSwitcherSlot5Criteria''),
        ''Slot5Ships: '' @ ToString (get temp ''shipSwitcherSlot5Ships''),
        ''Slot6Criteria: '' @ ToString (get temp ''shipSwitcherSlot6Criteria''),
        ''Slot6Ships: '' @ ToString (get temp ''shipSwitcherSlot6Ships''),
        '''',
        ''[Quests]'',
        ''Enabled: '' @ ToString (get temp ''questsEnabled'')]))))))"

text \<open>The thunk hands the action built from the lines to \<open>dispatch\<close> and returns its result.\<close>

definition setPythonConfig ::
  "string \<Rightarrow> jsobject \<Rightarrow> (string list action \<Rightarrow> 'r) \<Rightarrow> error + 'r" where
  "setPythonConfig SET_PYTHON_CONFIG cfg dispatch =
     (case pythonConfigLines cfg of
        Inl e \<Rightarrow> Inl e
      | Inr pythonConfig \<Rightarrow> Inr (dispatch (setPythonConfigSuccess SET_PYTHON_CONFIG pythonConfig)))"

section \<open>The reducers\<close>

text \<open>
  The default configuration is built when the module loads, and five of its values come
  from the clock: \<open>new Date()\<close> is evaluated five times, first for the time zone offset
  and then once for each of the four dates.

  \<^item> \<open>timezoneOffset\<close> is what \<open>getTimezoneOffset()\<close> returns, in minutes.
  \<^item> \<open>todayAt k h m\<close> is the object \<open>new Date(d.setHours(h, m, 0, 0))\<close> for the \<open>k\<close>-th
    of those \<open>new Date()\<close> values \<open>d\<close>. Its local time is \<open>h:m\<close> of that day, or the next
    local time that exists when a clock change skips \<open>h:m\<close>.
  \<^item> \<open>jstOffsetText\<close> is the text of the number \<open>-((getTimezoneOffset() / 60) + 9)\<close>; it
    is read only when the offset is not a whole number of quarter hours, where the
    digits of the quotient depend on floating-point rounding.
\<close>

record clock =
  timezoneOffset :: int
  jstOffsetText :: string
  todayAt :: "nat \<Rightarrow> nat \<Rightarrow> nat \<Rightarrow> jsdate"

text \<open>
  The number \<open>-((m / 60) + 9)\<close> for an offset of \<open>m\<close> minutes is \<open>v / 60\<close> with
  \<open>v = - (m + 540)\<close>. When \<open>m\<close> is a multiple of 15 the division, the sum and the
  negation are exact: the result is an integer, or an integer and one, two or three
  quarters, printed as \<open>.25\<close>, \<open>.5\<close> or \<open>.75\<close>.
\<close>

definition jstOffset :: "clock \<Rightarrow> jsnum" where
  "jstOffset c =
     (let v = - (timezoneOffset c + 540) in
      if 60 dvd v then Finite (v div 60)
      else if 15 dvd v then
        OtherNumber
          ((if v < 0 then ''-'' else '''') @ decimal (nat (\<bar>v\<bar> div 60)) @
           (if \<bar>v\<bar> mod 60 = 15 then ''.25'' else if \<bar>v\<bar> mod 60 = 30 then ''.5'' else ''.75''))
      else OtherNumber (jstOffsetText c))"

definition jsonConfigDefaults :: "clock \<Rightarrow> jsobject" where
  "jsonConfigDefaults c =
    [(''dropzoneActive'', JBool False),
     (''generalProgram'', JStr ''Chrome''),
     (''generalJSTOffset'', JNum (jstOffset c)),
     (''generalPause'', JBool False),
     (''scheduledSleepSleepEnabled'', JBool True),
     (''scheduledSleepSleepStartTime'', JDate (todayAt c 2 0 0)),
     (''scheduledSleepSleepLength'', JStr ''4''),
     (''scheduledSleepExpeditionSleepEnabled'', JBool False),
     (''scheduledSleepExpeditionSleepStartTime'', JDate (todayAt c 3 0 0)),
     (''scheduledSleepExpeditionSleepLength'', JStr ''3''),
     (''scheduledSleepCombatSleepEnabled'', JBool False),
     (''scheduledSleepCombatSleepStartTime'', JDate (todayAt c 4 0 0)),
     (''scheduledSleepCombatSleepLength'', JStr ''5''),
     (''expeditionsEnabled'', JBool True),
     (''expeditionsFleet2Enabled'', JBool True),
     (''expeditionsFleet3Enabled'', JBool True),
     (''expeditionsFleet4Enabled'', JBool True),
     (''expeditionsFleet2'', JStr ''2''),
     (''expeditionsFleet3'', JStr ''5''),
     (''expeditionsFleet4'', JStr ''38''),
     (''pvpEnabled'', JBool True),
     (''combatEnabled'', JBool False),
     (''combatEngine'', JStr ''live''),
     (''combatMap'', JStr ''1-1''),
     (''combatFleetMode'', JStr ''''),
     (''combatCombatNodes'', JNull),
     (''combatNodeSelect1'', JNull),
     (''combatNodeSelect2'', JNull),
     (''combatNodeSelects'', JNull),
     (''combatFormationsNode'', JNull),
     (''combatFormationsFormation'', JNull),
     (''combatFormations'', JNull),
     (''combatNightBattlesNode'', JNull),
     (''combatNightBattlesMode'', JNull),
     (''combatNightBattles'', JNull),
     (''combatRetreatLimit'', JStr ''heavy''),
     (''combatRepairLimit'', JStr ''moderate''),
     (''combatRepairTimeLimit'', JDate (todayAt c 5 0 30)),
     (''combatLBASGroups'', JNull),
     (''combatLBASGroup1Node1'', JNull),
     (''combatLBASGroup1Node2'', JNull),
     (''combatLBASGroup2Node1'', JNull),
     (''combatLBASGroup2Node2'', JNull),
     (''combatLBASGroup3Node1'', JNull),
     (''combatLBASGroup3Node2'', JNull),
     (''combatForceRetreatNodes'', JNull),
     (''combatOptionCheckFatigue'', JBool False),
     (''combatOptionReserveDocks'', JBool False),
     (''combatOptionPortCheck'', JBool False),
     (''combatOptionClearStop'', JBool False),
     (''shipSwitcherEnabled'', JBool False),
     (''shipSwitcherSlot1Criteria'', JNull),
     (''shipSwitcherSlot1Ships'', JNull),
     (''shipSwitcherSlot2Criteria'', JNull),
     (''shipSwitcherSlot2Ships'', JNull),
     (''shipSwitcherSlot3Criteria'', JNull),
     (''shipSwitcherSlot3Ships'', JNull),
     (''shipSwitcherSlot4Criteria'', JNull),
     (''shipSwitcherSlot4Ships'', JNull),
     (''shipSwitcherSlot5Criteria'', JNull),
     (''shipSwitcherSlot5Ships'', JNull),
     (''shipSwitcherSlot6Criteria'', JNull),
     (''shipSwitcherSlot6Ships'', JNull),
     (''questsEnabled'', JBool True)]"

text \<open>
  A reducer is called with the current state, or with \<open>undefined\<close> (here \<open>None\<close>) when
  there is none yet, in which case the default parameter value takes its place.
\<close>

definition jsonConfig :: "string \<Rightarrow> clock \<Rightarrow> jsobject option \<Rightarrow> jsobject action \<Rightarrow> jsobject" where
  "jsonConfig SET_JSON_CONFIG c state act =
     (let state = (case state of None \<Rightarrow> jsonConfigDefaults c | Some s \<Rightarrow> s)
      in if type act = SET_JSON_CONFIG then config act else state)"

definition pythonConfig :: "string \<Rightarrow> string list option \<Rightarrow> string list action \<Rightarrow> string list" where
  "pythonConfig SET_PYTHON_CONFIG state act =
     (let state = (case state of None \<Rightarrow> [] | Some s \<Rightarrow> s)
      in if type act = SET_PYTHON_CONFIG then config act else state)"

section \<open>The documented output format\<close>

text \<open>
  The layout of the text file as the interface description gives it: the sections in
  order, each with its keys in order. A section is rendered as its header line followed
  by one \<open>Key: Value\<close> line per key, and consecutive sections are separated by one blank
  line. These definitions follow the description, not the code; the theorems below
  compare the two.
\<close>

definition sectionLayout :: "(string \<times> string list) list" where
  "sectionLayout =
    [(''General'', [''Program'', ''JSTOffset'', ''Pause'']),
     (''ScheduledSleep'',
        [''SleepEnabled'', ''SleepStartTime'', ''SleepLength'',
         ''ExpeditionSleepEnabled'', ''ExpeditionSleepStartTime'', ''ExpeditionSleepLength'',
         ''CombatSleepEnabled'', ''CombatSleepStartTime'', ''CombatSleepLength'']),
     (''Expeditions'', [''Enabled'', ''Fleet2'', ''Fleet3'', ''Fleet4'']),
     (''PvP'', [''Enabled'']),
     (''Combat'',
        [''Enabled'', ''Engine'', ''Map'', ''FleetMode'', ''CombatNodes'', ''NodeSelects'',
         ''Formations'', ''NightBattles'', ''RetreatLimit'', ''RepairLimit'',
         ''RepairTimeLimit'', ''LBASGroups'', ''LBASGroup1Nodes'', ''LBASGroup2Nodes'',
         ''LBASGroup3Nodes'', ''ForceRetreatNodes'', ''MiscOptions'']),
     (''ShipSwitcher'',
        [''Enabled'', ''Slot1Criteria'', ''Slot1Ships'', ''Slot2Criteria'', ''Slot2Ships'',
         ''Slot3Criteria'', ''Slot3Ships'', ''Slot4Criteria'', ''Slot4Ships'',
         ''Slot5Criteria'', ''Slot5Ships'', ''Slot6Criteria'', ''Slot6Ships'']),
     (''Quests'', [''Enabled''])]"

definition keyLine :: "string \<Rightarrow> string \<Rightarrow> string" where
  "keyLine k v = k @ '': '' @ v"

definition renderSection :: "string \<times> string list \<Rightarrow> string list \<Rightarrow> string list" where
  "renderSection sec vals = (''['' @ fst sec @ '']'') # map2 keyLine (snd sec) vals"

fun separated :: "string list list \<Rightarrow> string list" where
  "separated [] = []"
| "separated [s] = s"
| "separated (s # t # ts) = s @ [''''] @ separated (t # ts)"

definition renderLayout :: "(string \<times> string list) list \<Rightarrow> string list list \<Rightarrow> string list" where
  "renderLayout layout vals = separated (map2 renderSection layout vals)"

text \<open>The layout with every value empty: what each line starts with.\<close>

definition lineTemplate :: "string list" where
  "lineTemplate =
     renderLayout sectionLayout (map (\<lambda>sec. map (\<lambda>k. '''') (snd sec)) sectionLayout)"

text \<open>
  The documented rule of the general pass, as the text a field ends up as: \<open>true\<close> and
  \<open>false\<close> capitalised, \<open>null\<close> empty, anything else in its natural string form.
\<close>

fun documentedText :: "jsval \<Rightarrow> string" where
  "documentedText (JBool True) = ''True''"
| "documentedText (JBool False) = ''False''"
| "documentedText JNull = ''''"
| "documentedText (JNum n) = Number_toString n"
| "documentedText (JStr s) = s"
| "documentedText JUndefined = ''undefined''"
| "documentedText (JDate d) = Date_toString d"

text \<open>
  The lines whose value is a field of the general pass and nothing else: position in the
  output (from 0), key, field name.
\<close>

definition plainLines :: "(nat \<times> string \<times> string) list" where
  "plainLines =
    [(1, ''Program'', ''generalProgram''),
     (2, ''JSTOffset'', ''generalJSTOffset''),
     (3, ''Pause'', ''generalPause''),
     (6, ''SleepEnabled'', ''scheduledSleepSleepEnabled''),
     (8, ''SleepLength'', ''scheduledSleepSleepLength''),
     (9, ''ExpeditionSleepEnabled'', ''scheduledSleepExpeditionSleepEnabled''),
     (11, ''ExpeditionSleepLength'', ''scheduledSleepExpeditionSleepLength''),
     (12, ''CombatSleepEnabled'', ''scheduledSleepCombatSleepEnabled''),
     (14, ''CombatSleepLength'', ''scheduledSleepCombatSleepLength''),
     (17, ''Enabled'', ''expeditionsEnabled''),
     (18, ''Fleet2'', ''expeditionsFleet2''),
     (19, ''Fleet3'', ''expeditionsFleet3''),
     (20, ''Fleet4'', ''expeditionsFleet4''),
     (23, ''Enabled'', ''pvpEnabled''),
     (26, ''Enabled'', ''combatEnabled''),
     (27, ''Engine'', ''combatEngine''),
     (28, ''Map'', ''combatMap''),
     (29, ''FleetMode'', ''combatFleetMode''),
     (30, ''CombatNodes'', ''combatCombatNodes''),
     (31, ''NodeSelects'', ''combatNodeSelects''),
     (32, ''Formations'', ''combatFormations''),
     (33, ''NightBattles'', ''combatNightBattles''),
     (34, ''RetreatLimit'', ''combatRetreatLimit''),
     (35, ''RepairLimit'', ''combatRepairLimit''),
     (37, ''LBASGroups'', ''combatLBASGroups''),
     (41, ''ForceRetreatNodes'', ''combatForceRetreatNodes''),
     (45, ''Enabled'', ''shipSwitcherEnabled''),
     (60, ''Enabled'', ''questsEnabled'')]"

text \<open>The four time lines: position, key, field name.\<close>

definition timeLines :: "(nat \<times> string \<times> string) list" where
  "timeLines =
    [(7, ''SleepStartTime'', ''scheduledSleepSleepStartTime''),
     (10, ''ExpeditionSleepStartTime'', ''scheduledSleepExpeditionSleepStartTime''),
     (13, ''CombatSleepStartTime'', ''scheduledSleepCombatSleepStartTime''),
     (36, ''RepairTimeLimit'', ''combatRepairTimeLimit'')]"

text \<open>A number below 100 as two decimal digits, zero-padded.\<close>

definition twoDigits :: "nat \<Rightarrow> string" where
  "twoDigits n = [digit_char (n div 10), digit_char (n mod 10)]"

text \<open>The three derived node lines: position, key, the two node fields.\<close>

definition lbasLines :: "(nat \<times> string \<times> string \<times> string) list" where
  "lbasLines =
    [(38, ''LBASGroup1Nodes'', ''combatLBASGroup1Node1'', ''combatLBASGroup1Node2''),
     (39, ''LBASGroup2Nodes'', ''combatLBASGroup2Node1'', ''combatLBASGroup2Node2''),
     (40, ''LBASGroup3Nodes'', ''combatLBASGroup3Node1'', ''combatLBASGroup3Node2'')]"

text \<open>
  The six slots: position of the criteria line (the ships line is the next one), and the
  criteria and ships field names; the keys are the field names without \<open>shipSwitcher\<close>.
\<close>

definition slotLines :: "(nat \<times> string \<times> string) list" where
  "slotLines =
    [(46, ''shipSwitcherSlot1Criteria'', ''shipSwitcherSlot1Ships''),
     (48, ''shipSwitcherSlot2Criteria'', ''shipSwitcherSlot2Ships''),
     (50, ''shipSwitcherSlot3Criteria'', ''shipSwitcherSlot3Ships''),
     (52, ''shipSwitcherSlot4Criteria'', ''shipSwitcherSlot4Ships''),
     (54, ''shipSwitcherSlot5Criteria'', ''shipSwitcherSlot5Ships''),
     (56, ''shipSwitcherSlot6Criteria'', ''shipSwitcherSlot6Ships'')]"

definition slotKey :: "string \<Rightarrow> string" where
  "slotKey field = drop (length ''shipSwitcher'') field"

text \<open>The raw values said to trigger the blanking of a slot, and the ones that do.\<close>

definition statedBlankingValue :: "jsval \<Rightarrow> bool" where
  "statedBlankingValue v \<longleftrightarrow>
     v = JNull \<or> v = JStr '''' \<or> v = JNum (Finite 0) \<or> v = JUndefined"

definition blankingValue :: "jsval \<Rightarrow> bool" where
  "blankingValue v \<longleftrightarrow>
     v = JNull \<or> v = JStr '''' \<or> v = JNum (Finite 0) \<or> v = JNum NaN \<or> v = JUndefined"

text \<open>The raw values of a time field on which the time expression does not throw.\<close>

fun isDate :: "jsval \<Rightarrow> bool" where
  "isDate (JDate d) = True"
| "isDate v = False"

definition timeFieldsUsable :: "jsobject \<Rightarrow> bool" where
  "timeFieldsUsable cfg \<longleftrightarrow>
     list_all (\<lambda>(i, k, field). \<not> ToBoolean (get cfg field) \<or> isDate (get cfg field)) timeLines"

section \<open>Sample inputs\<close>

text \<open>
  Three clocks: one two hours east of UTC on an ordinary day; one five and a half hours
  east of UTC; and one four hours west of UTC on a day whose first hour is skipped by a
  clock change.
\<close>

definition exampleClock :: clock where
  "exampleClock =
     \<lparr>timezoneOffset = - 120,
      jstOffsetText = ''-7'',
      todayAt = (\<lambda>k h m. Date h m
        (''Tue Nov 03 2026 '' @ twoDigits h @ '':'' @ twoDigits m @ '':00 GMT+0200''))\<rparr>"

definition halfHourClock :: clock where
  "halfHourClock =
     \<lparr>timezoneOffset = - 330,
      jstOffsetText = ''-3.5'',
      todayAt = (\<lambda>k h m. Date h m
        (''Tue Nov 03 2026 '' @ twoDigits h @ '':'' @ twoDigits m @ '':00 GMT+0530''))\<rparr>"

definition skippedMidnightClock :: clock where
  "skippedMidnightClock =
     \<lparr>timezoneOffset = 240,
      jstOffsetText = ''-13'',
      todayAt = (\<lambda>k h m. Date (if h = 0 then 1 else h) m
        (''Sun Mar 08 2026 '' @ twoDigits (if h = 0 then 1 else h) @ '':'' @ twoDigits m @
         '':00 GMT-0400''))\<rparr>"

text \<open>The fields the serialisation tests as raw option flags.\<close>

definition optionFields :: "string list" where
  "optionFields =
    [''combatOptionCheckFatigue'', ''combatOptionReserveDocks'', ''combatOptionPortCheck'',
     ''combatOptionClearStop'']"

text \<open>What the serialisation of the default record is expected to be under \<open>exampleClock\<close>.\<close>

definition defaultLines :: "string list" where
  "defaultLines =
    [''[General]'', ''Program: Chrome'', ''JSTOffset: -7'', ''Pause: False'', [],
     ''[ScheduledSleep]'', ''SleepEnabled: True'', ''SleepStartTime: 0000'',
     ''SleepLength: 4'', ''ExpeditionSleepEnabled: False'',
     ''ExpeditionSleepStartTime: 0000'', ''ExpeditionSleepLength: 3'',
     ''CombatSleepEnabled: False'', ''CombatSleepStartTime: 0000'',
     ''CombatSleepLength: 5'', [],
     ''[Expeditions]'', ''Enabled: True'', ''Fleet2: 2'', ''Fleet3: 5'', ''Fleet4: 38'', [],
     ''[PvP]'', ''Enabled: True'', [],
     ''[Combat]'', ''Enabled: False'', ''Engine: live'', ''Map: 1-1'', ''FleetMode: '',
     ''CombatNodes: '', ''NodeSelects: '', ''Formations: '', ''NightBattles: '',
     ''RetreatLimit: heavy'', ''RepairLimit: moderate'', ''RepairTimeLimit: 0030'',
     ''LBASGroups: '', ''LBASGroup1Nodes: '', ''LBASGroup2Nodes: '', ''LBASGroup3Nodes: '',
     ''ForceRetreatNodes: '', ''MiscOptions: '', [],
     ''[ShipSwitcher]'', ''Enabled: False'', ''Slot1Criteria: '', ''Slot1Ships: '',
     ''Slot2Criteria: '', ''Slot2Ships: '', ''Slot3Criteria: '', ''Slot3Ships: '',
     ''Slot4Criteria: '', ''Slot4Ships: '', ''Slot5Criteria: '', ''Slot5Ships: '',
     ''Slot6Criteria: '', ''Slot6Ships: '', [],
     ''[Quests]'', ''Enabled: True'']"

definition exampleConfig :: jsobject where
  "exampleConfig =
    [(''generalProgram'', JStr ''Chrome''),
     (''generalJSTOffset'', JNum (Finite (- 7))),
     (''generalPause'', JBool False),
     (''scheduledSleepSleepEnabled'', JBool True),
     (''scheduledSleepSleepStartTime'', JDate (Date 9 5 ''Tue Nov 03 2026 09:05:00 GMT+0200'')),
     (''scheduledSleepExpeditionSleepStartTime'', JDate (Date 0 0 ''Tue Nov 03 2026 00:00:00 GMT+0200'')),
     (''scheduledSleepCombatSleepStartTime'', JNull),
     (''combatRepairTimeLimit'', JDate (Date 23 59 ''Tue Nov 03 2026 23:59:00 GMT+0200'')),
     (''combatCombatNodes'', JNull),
     (''combatLBASGroup1Node1'', JStr ''A2''),
     (''combatLBASGroup1Node2'', JStr ''B3''),
     (''combatLBASGroup2Node1'', JStr ''A2''),
     (''combatLBASGroup2Node2'', JNull),
     (''combatLBASGroup3Node1'', JNum (Finite 0)),
     (''combatLBASGroup3Node2'', JStr ''C1''),
     (''combatOptionCheckFatigue'', JBool True),
     (''combatOptionReserveDocks'', JBool False),
     (''combatOptionPortCheck'', JBool True),
     (''combatOptionClearStop'', JBool False),
     (''shipSwitcherSlot1Criteria'', JStr ''Cond''),
     (''shipSwitcherSlot1Ships'', JNull),
     (''shipSwitcherSlot2Criteria'', JStr ''Cond''),
     (''shipSwitcherSlot2Ships'', JStr ''ShipA''),
     (''shipSwitcherSlot3Criteria'', JBool False),
     (''shipSwitcherSlot3Ships'', JStr ''ShipB''),
     (''questsEnabled'', JBool True)]"

text \<open>What the serialisation of \<open>exampleConfig\<close> is expected to be.\<close>

definition exampleLines :: "string list" where
  "exampleLines =
    [''[General]'', ''Program: Chrome'', ''JSTOffset: -7'', ''Pause: False'', [],
     ''[ScheduledSleep]'', ''SleepEnabled: True'', ''SleepStartTime: 0905'',
     ''SleepLength: undefined'', ''ExpeditionSleepEnabled: undefined'',
     ''ExpeditionSleepStartTime: 0000'', ''ExpeditionSleepLength: undefined'',
     ''CombatSleepEnabled: undefined'', ''CombatSleepStartTime: '',
     ''CombatSleepLength: undefined'', [],
     ''[Expeditions]'', ''Enabled: undefined'', ''Fleet2: undefined'', ''Fleet3: undefined'',
     ''Fleet4: undefined'', [],
     ''[PvP]'', ''Enabled: undefined'', [],
     ''[Combat]'', ''Enabled: undefined'', ''Engine: undefined'', ''Map: undefined'',
     ''FleetMode: undefined'', ''CombatNodes: '', ''NodeSelects: undefined'',
     ''Formations: undefined'', ''NightBattles: undefined'', ''RetreatLimit: undefined'',
     ''RepairLimit: undefined'', ''RepairTimeLimit: 2359'', ''LBASGroups: undefined'',
     ''LBASGroup1Nodes: A2,B3'', ''LBASGroup2Nodes: '', ''LBASGroup3Nodes: '',
     ''ForceRetreatNodes: undefined'', ''MiscOptions: CheckFatigue,PortCheck'', [],
     ''[ShipSwitcher]'', ''Enabled: undefined'', ''Slot1Criteria: '', ''Slot1Ships: '',
     ''Slot2Criteria: Cond'', ''Slot2Ships: ShipA'', ''Slot3Criteria: False'',
     ''Slot3Ships: ShipB'', ''Slot4Criteria: '', ''Slot4Ships: '', ''Slot5Criteria: '',
     ''Slot5Ships: '', ''Slot6Criteria: '', ''Slot6Ships: '', [],
     ''[Quests]'', ''Enabled: True'']"

text \<open>A record whose first time field came back from JSON as a string.\<close>

definition stringTimeConfig :: jsobject where
  "stringTimeConfig =
    [(''generalProgram'', JStr ''Chrome''),
     (''scheduledSleepSleepEnabled'', JBool True),
     (''scheduledSleepSleepStartTime'', JStr ''0905''),
     (''questsEnabled'', JBool True)]"

text \<open>A record whose first slot has a not-a-number criteria value.\<close>

definition nanSlotConfig :: jsobject where
  "nanSlotConfig =
    [(''shipSwitcherEnabled'', JBool True),
     (''shipSwitcherSlot1Criteria'', JNum NaN),
     (''shipSwitcherSlot1Ships'', JStr ''ShipA'')]"

section \<open>Objects and the general pass\<close>

lemma get_put: "get (put t k v) k' = (if k' = k then v else get t k')"
  by (simp add: get_def put_def update_conv')

lemma get_foldl_reducer:
  "get (foldl (reducer cfg) acc ks) k =
     (if k \<in> set ks then normalized (get cfg k) else get acc k)"
  by (induction ks arbitrary: acc) (auto simp: reducer_def get_put)

text \<open>
  After the pass every property of the normalised object is the normalised value of the
  same property of the input; an absent one stays absent.
\<close>

lemma get_configTemp: "get (configTemp cfg) k = normalized (get cfg k)"
proof (cases "map_of cfg k")
  case None
  then have "k \<notin> set (Object_keys cfg)"
    by (simp add: Object_keys_def map_of_eq_None_iff)
  then have "get (configTemp cfg) k = get [] k"
    by (simp add: configTemp_def get_foldl_reducer)
  with None show ?thesis by (simp add: get_def)
next
  case (Some v)
  then have "k \<in> set (Object_keys cfg)"
    by (metis Object_keys_def map_of_eq_None_iff option.distinct(1) set_map)
  then show ?thesis by (simp add: configTemp_def get_foldl_reducer)
qed

lemma get_blankSlot_other:
  "k \<noteq> c \<Longrightarrow> k \<noteq> s \<Longrightarrow> get (blankSlot c s t) k = get t k"
  by (simp add: blankSlot_def get_put)

lemma get_blankSlot_criteria:
  "get (blankSlot c s t) c =
     (if \<not> ToBoolean (get t c) \<or> \<not> ToBoolean (get t s) then JStr [] else get t c)"
  by (simp add: blankSlot_def get_put)

lemma get_blankSlot_ships:
  "get (blankSlot c s t) s =
     (if \<not> ToBoolean (get t c) \<or> \<not> ToBoolean (get t s) then JStr [] else get t s)"
  by (simp add: blankSlot_def get_put)

lemmas get_blankSlot = get_blankSlot_other get_blankSlot_criteria get_blankSlot_ships

lemma ToString_normalized: "ToString (normalized v) = documentedText v"
  by (cases v rule: normalized.cases) simp_all

lemma ToBoolean_normalized: "ToBoolean (normalized v) \<longleftrightarrow> \<not> blankingValue v"
  by (cases v rule: normalized.cases) (auto simp: blankingValue_def)

lemma normalized_not_empty: "\<not> blankingValue v \<Longrightarrow> normalized v \<noteq> JStr ''''"
  using ToBoolean_normalized [of v] by auto

section \<open>The sample run\<close>

lemma example_lines: "pythonConfigLines exampleConfig = Inr exampleLines"
  by code_simp

lemma example_fields:
  "get exampleConfig ''generalPause'' = JBool False"
  "get exampleConfig ''generalJSTOffset'' = JNum (Finite (- 7))"
  "get exampleConfig ''combatCombatNodes'' = JNull"
  "get exampleConfig ''scheduledSleepSleepStartTime'' =
     JDate (Date 9 5 ''Tue Nov 03 2026 09:05:00 GMT+0200'')"
  "get exampleConfig ''scheduledSleepExpeditionSleepStartTime'' =
     JDate (Date 0 0 ''Tue Nov 03 2026 00:00:00 GMT+0200'')"
  "get exampleConfig ''scheduledSleepCombatSleepStartTime'' = JNull"
  "get exampleConfig ''combatRepairTimeLimit'' =
     JDate (Date 23 59 ''Tue Nov 03 2026 23:59:00 GMT+0200'')"
  "get exampleConfig ''combatLBASGroup1Node1'' = JStr ''A2''"
  "get exampleConfig ''combatLBASGroup1Node2'' = JStr ''B3''"
  "get exampleConfig ''combatLBASGroup2Node1'' = JStr ''A2''"
  "get exampleConfig ''combatLBASGroup2Node2'' = JNull"
  "get exampleConfig ''combatLBASGroup3Node1'' = JNum (Finite 0)"
  "get exampleConfig ''combatLBASGroup3Node2'' = JStr ''C1''"
  "get exampleConfig ''combatOptionCheckFatigue'' = JBool True"
  "get exampleConfig ''combatOptionReserveDocks'' = JBool False"
  "get exampleConfig ''combatOptionPortCheck'' = JBool True"
  "get exampleConfig ''combatOptionClearStop'' = JBool False"
  "get exampleConfig ''shipSwitcherSlot1Criteria'' = JStr ''Cond''"
  "get exampleConfig ''shipSwitcherSlot1Ships'' = JNull"
  "get exampleConfig ''shipSwitcherSlot2Criteria'' = JStr ''Cond''"
  "get exampleConfig ''shipSwitcherSlot2Ships'' = JStr ''ShipA''"
  "get exampleConfig ''shipSwitcherSlot3Criteria'' = JBool False"
  "get exampleConfig ''shipSwitcherSlot3Ships'' = JStr ''ShipB''"
  by code_simp+

lemma example_usable: "timeFieldsUsable exampleConfig"
  by code_simp

text \<open>The default record has a date in each time field, whatever the clock.\<close>

lemma defaults_usable: "timeFieldsUsable (jsonConfigDefaults c)"
  by code_simp

lemma stringTime_unusable: "\<not> timeFieldsUsable stringTimeConfig"
  by code_simp

section \<open>The time values\<close>

lemma decimal_below_100:
  "n < 100 \<Longrightarrow> decimal n = (if n < 10 then [digit_char n] else twoDigits n)"
proof -
  assume "n < 100"
  then have "n div 10 < 10" by simp
  then show ?thesis
    by (subst decimal.simps, subst decimal.simps) (simp add: twoDigits_def digit_char_def)
qed

lemma padStart_two: "n < 100 \<Longrightarrow> padStart 2 CHR ''0'' (decimal n) = twoDigits n"
  by (cases "n < 10") (simp_all add: decimal_below_100 padStart_def twoDigits_def digit_char_def)

lemma timeText_Date:
  "h < 24 \<Longrightarrow> m < 60 \<Longrightarrow> timeText (JDate (Date h m txt)) = Inr (twoDigits h @ twoDigits m)"
  by (simp add: timeText_def padStart_two)

lemma timeText_falsy: "\<not> ToBoolean v \<Longrightarrow> timeText v = Inr ''''"
  by (simp add: timeText_def)

lemma timeText_throws: "ToBoolean v \<Longrightarrow> \<not> isDate v \<Longrightarrow> timeText v = Inl TypeError"
  by (cases v) (simp_all add: timeText_def)

lemma timeText_returns: "\<not> ToBoolean v \<or> isDate v \<Longrightarrow> \<exists>t. timeText v = Inr t"
  by (cases v) (simp_all add: timeText_def)

section \<open>When the serialisation returns\<close>

lemma lines_total:
  assumes "timeFieldsUsable cfg"
  shows "\<exists>ls. pythonConfigLines cfg = Inr ls"
proof -
  from assms have
    "\<exists>t. timeText (get cfg ''scheduledSleepSleepStartTime'') = Inr t"
    "\<exists>t. timeText (get cfg ''scheduledSleepExpeditionSleepStartTime'') = Inr t"
    "\<exists>t. timeText (get cfg ''scheduledSleepCombatSleepStartTime'') = Inr t"
    "\<exists>t. timeText (get cfg ''combatRepairTimeLimit'') = Inr t"
    by (simp_all add: timeFieldsUsable_def timeLines_def timeText_returns)
  then obtain t1 t2 t3 t4 where
    "timeText (get cfg ''scheduledSleepSleepStartTime'') = Inr t1"
    "timeText (get cfg ''scheduledSleepExpeditionSleepStartTime'') = Inr t2"
    "timeText (get cfg ''scheduledSleepCombatSleepStartTime'') = Inr t3"
    "timeText (get cfg ''combatRepairTimeLimit'') = Inr t4"
    by blast
  then show ?thesis
    by (simp add: pythonConfigLines_def Let_def)
qed

lemma lines_throw:
  assumes "\<not> timeFieldsUsable cfg"
  shows "pythonConfigLines cfg = Inl TypeError"
proof -
  have e: "x = Inl TypeError" if "x = Inl e" for x :: "error + string list" and e
    using that by (cases e) simp
  from assms have
    "timeText (get cfg ''scheduledSleepSleepStartTime'') = Inl TypeError \<or>
     timeText (get cfg ''scheduledSleepExpeditionSleepStartTime'') = Inl TypeError \<or>
     timeText (get cfg ''scheduledSleepCombatSleepStartTime'') = Inl TypeError \<or>
     timeText (get cfg ''combatRepairTimeLimit'') = Inl TypeError"
    unfolding timeFieldsUsable_def timeLines_def
    by (auto simp: timeText_throws)
  then have "\<exists>e. pythonConfigLines cfg = Inl e"
    by (auto simp: pythonConfigLines_def Let_def split: sum.splits)
  then show ?thesis using e by blast
qed

text \<open>
  C1, as stated, fails: a record whose sleep start time is a string (one of the value
  kinds the claim allows in every field) makes the serialisation throw, since a string
  has no \<open>getHours\<close> method.
\<close>

theorem string_time_field_throws:
  "pythonConfigLines stringTimeConfig = Inl TypeError \<and>
   setPythonConfig ''SET_PYTHON_CONFIG'' stringTimeConfig id = Inl TypeError"
  by code_simp

text \<open>
  C1, amended: the serialisation returns its lines, and hands them to \<open>dispatch\<close>, exactly
  when each of the four time fields is falsy (null, absent, \<open>false\<close>, zero, not-a-number,
  the empty string) or a date, whatever the other fields hold; otherwise it throws a
  \<open>TypeError\<close>.
\<close>

theorem serialization_total_on_usable_times:
  "(timeFieldsUsable cfg \<longrightarrow>
      (\<exists>ls. pythonConfigLines cfg = Inr ls \<and>
            setPythonConfig SET_PYTHON_CONFIG cfg dispatch =
              Inr (dispatch (setPythonConfigSuccess SET_PYTHON_CONFIG ls)))) \<and>
   (\<not> timeFieldsUsable cfg \<longrightarrow>
      pythonConfigLines cfg = Inl TypeError \<and>
      setPythonConfig SET_PYTHON_CONFIG cfg dispatch = Inl TypeError)"
proof (intro conjI impI)
  assume "timeFieldsUsable cfg"
  then obtain ls where "pythonConfigLines cfg = Inr ls" using lines_total by blast
  then show "\<exists>ls. pythonConfigLines cfg = Inr ls \<and>
            setPythonConfig SET_PYTHON_CONFIG cfg dispatch =
              Inr (dispatch (setPythonConfigSuccess SET_PYTHON_CONFIG ls))"
    by (simp add: setPythonConfig_def)
next
  assume n: "\<not> timeFieldsUsable cfg"
  then show "pythonConfigLines cfg = Inl TypeError" by (rule lines_throw)
  from lines_throw [OF n] show "setPythonConfig SET_PYTHON_CONFIG cfg dispatch = Inl TypeError"
    by (simp add: setPythonConfig_def)
qed

theorem serialization_total_on_usable_times_witness:
  "timeFieldsUsable exampleConfig \<and>
   setPythonConfig ''SET_PYTHON_CONFIG'' exampleConfig config = Inr exampleLines \<and>
   \<not> timeFieldsUsable stringTimeConfig \<and>
   setPythonConfig ''SET_PYTHON_CONFIG'' stringTimeConfig config = Inl TypeError"
  using serialization_total_on_usable_times
          [of exampleConfig "''SET_PYTHON_CONFIG''" config]
        serialization_total_on_usable_times
          [of stringTimeConfig "''SET_PYTHON_CONFIG''" config]
        example_usable stringTime_unusable example_lines
  by (simp add: setPythonConfigSuccess_def)


section \<open>Layout of the output\<close>

lemma lines_layout_values:
  assumes "pythonConfigLines cfg = Inr out"
  shows "\<exists>v1 v2 v3 v4 v5 v6 v7 v8 v9 v10 v11 v12 v13 v14 v15 v16 v17 v18 v19 v20 v21 v22 v23
     v24 v25 v26 v27 v28 v29 v30 v31 v32 v33 v34 v35 v36 v37 v38 v39 v40 v41 v42 v43
     v44 v45 v46 v47 v48.
    out = renderLayout sectionLayout
      [[v1, v2, v3],
       [v4, v5, v6, v7, v8, v9, v10, v11, v12],
       [v13, v14, v15, v16],
       [v17],
       [v18, v19, v20, v21, v22, v23, v24, v25, v26, v27, v28, v29, v30, v31, v32,
        v33, v34],
       [v35, v36, v37, v38, v39, v40, v41, v42, v43, v44, v45, v46, v47],
       [v48]]"
  using assms
  by (clarsimp simp: pythonConfigLines_def Let_def renderLayout_def sectionLayout_def
        renderSection_def keyLine_def split: sum.splits)

text \<open>
  C2: whenever the serialisation returns, its lines are the documented layout filled with
  one value per key: the seven sections in order, each a header line followed by its keys
  in order as \<open>Key: Value\<close> lines (colon, one space, a possibly empty value), with exactly
  one blank line between consecutive sections.
\<close>

theorem output_follows_layout:
  assumes "pythonConfigLines cfg = Inr out"
  shows "\<exists>vals. map length vals = map (\<lambda>sec. length (snd sec)) sectionLayout \<and>
                out = renderLayout sectionLayout vals"
  using lines_layout_values [OF assms]
  apply (elim exE)
  apply (rule exI, rule conjI)
   prefer 2
   apply assumption
  apply (simp add: sectionLayout_def)
  done

theorem output_follows_layout_witness:
  "pythonConfigLines exampleConfig = Inr exampleLines \<and>
   (\<exists>vals. map length vals = [3, 9, 4, 1, 17, 13, 1] \<and>
           exampleLines = renderLayout sectionLayout vals) \<and>
   (\<exists>out vals. pythonConfigLines (jsonConfigDefaults exampleClock) = Inr out \<and>
           map length vals = [3, 9, 4, 1, 17, 13, 1] \<and>
           out = renderLayout sectionLayout vals)"
proof -
  have n: "map (\<lambda>sec. length (snd sec)) sectionLayout = [3, 9, 4, 1, 17, 13, 1]"
    by (simp add: sectionLayout_def)
  from lines_total [OF defaults_usable] obtain out
    where out: "pythonConfigLines (jsonConfigDefaults exampleClock) = Inr out"
    by blast
  from output_follows_layout [OF out] out n
  have "\<exists>out vals. pythonConfigLines (jsonConfigDefaults exampleClock) = Inr out \<and>
           map length vals = [3, 9, 4, 1, 17, 13, 1] \<and>
           out = renderLayout sectionLayout vals"
    by auto
  with output_follows_layout [OF example_lines] example_lines n show ?thesis
    by simp
qed

lemma lines_length: "pythonConfigLines cfg = Inr out \<Longrightarrow> length out = 61"
  by (auto simp: pythonConfigLines_def Let_def split: sum.splits)

lemma lines_headers:
  "pythonConfigLines cfg = Inr out \<Longrightarrow>
   [out ! 0, out ! 5, out ! 16, out ! 22, out ! 25, out ! 44, out ! 59] =
   [''[General]'', ''[ScheduledSleep]'', ''[Expeditions]'', ''[PvP]'', ''[Combat]'',
    ''[ShipSwitcher]'', ''[Quests]'']"
  by (auto simp: pythonConfigLines_def Let_def split: sum.splits)

lemma lines_blanks:
  "pythonConfigLines cfg = Inr out \<Longrightarrow>
   [out ! 4, out ! 15, out ! 21, out ! 24, out ! 43, out ! 58] =
   ['''', '''', '''', '''', '''', '''']"
  by (auto simp: pythonConfigLines_def Let_def split: sum.splits)

lemma lines_template:
  "pythonConfigLines cfg = Inr out \<Longrightarrow>
   list_all2 (\<lambda>t l. \<exists>v. l = t @ v) lineTemplate out"
  by (auto simp: pythonConfigLines_def Let_def lineTemplate_def renderLayout_def
        sectionLayout_def renderSection_def keyLine_def split: sum.splits)

lemma lines_blank_count:
  "pythonConfigLines cfg = Inr out \<Longrightarrow> length (filter (\<lambda>l. l = '''') out) = 6"
  by (auto simp: pythonConfigLines_def Let_def split: sum.splits)

lemma lines_header_count:
  "pythonConfigLines cfg = Inr out \<Longrightarrow>
   length (filter (\<lambda>l. l \<noteq> [] \<and> hd l = CHR ''['') out) = 7"
  by (auto simp: pythonConfigLines_def Let_def split: sum.splits)

text \<open>
  C9: whatever the field values, an output has exactly 61 lines; the seven header lines
  sit at positions 0, 5, 16, 22, 25, 44 and 59 and the six blank lines at 4, 15, 21, 24,
  43 and 58, and there are no other header or blank lines; every line starts with the
  line of the empty template at its position, so only what follows \<open>Key: \<close> varies.
\<close>

theorem fixed_line_positions:
  assumes "pythonConfigLines cfg = Inr out"
  shows "length out = 61 \<and>
         [out ! 0, out ! 5, out ! 16, out ! 22, out ! 25, out ! 44, out ! 59] =
           [''[General]'', ''[ScheduledSleep]'', ''[Expeditions]'', ''[PvP]'', ''[Combat]'',
            ''[ShipSwitcher]'', ''[Quests]''] \<and>
         [out ! 4, out ! 15, out ! 21, out ! 24, out ! 43, out ! 58] =
           ['''', '''', '''', '''', '''', ''''] \<and>
         length (filter (\<lambda>l. l \<noteq> [] \<and> hd l = CHR ''['') out) = 7 \<and>
         length (filter (\<lambda>l. l = '''') out) = 6 \<and>
         list_all2 (\<lambda>t l. \<exists>v. l = t @ v) lineTemplate out"
  by (intro conjI lines_length [OF assms] lines_headers [OF assms] lines_blanks [OF assms]
        lines_header_count [OF assms] lines_blank_count [OF assms] lines_template [OF assms])

theorem fixed_line_positions_witness:
  "pythonConfigLines exampleConfig = Inr exampleLines \<and> length exampleLines = 61 \<and>
   exampleLines ! 25 = ''[Combat]'' \<and> exampleLines ! 43 = ''''"
  using fixed_line_positions [OF example_lines] example_lines by simp

section \<open>The general pass in the output\<close>

lemma plain_lines:
  assumes "pythonConfigLines cfg = Inr out"
  shows "\<forall>(i, k, field) \<in> set plainLines.
           out ! i = k @ '': '' @ documentedText (get cfg field)"
  using assms
  by (clarsimp simp: pythonConfigLines_def Let_def plainLines_def blankSlots_def get_blankSlot
        get_configTemp ToString_normalized split: sum.splits)

text \<open>
  C3: after the general pass the text of every field is \<open>True\<close> for \<open>true\<close>, \<open>False\<close> for
  \<open>false\<close>, empty for \<open>null\<close>, and the natural string form of anything else; and that
  text is what stands after \<open>Key: \<close> on each of the 28 lines whose value is a field with no
  rule of its own.
\<close>

theorem general_pass_text:
  "(\<forall>key. ToString (get (configTemp cfg) key) = documentedText (get cfg key)) \<and>
   (\<forall>out. pythonConfigLines cfg = Inr out \<longrightarrow>
      (\<forall>(i, k, field) \<in> set plainLines.
          out ! i = k @ '': '' @ documentedText (get cfg field)))"
proof (intro conjI allI impI)
  fix key
  show "ToString (get (configTemp cfg) key) = documentedText (get cfg key)"
    by (simp add: get_configTemp ToString_normalized)
next
  fix out
  assume "pythonConfigLines cfg = Inr out"
  then show "\<forall>(i, k, field) \<in> set plainLines.
          out ! i = k @ '': '' @ documentedText (get cfg field)"
    by (rule plain_lines)
qed

theorem general_pass_text_witness:
  "pythonConfigLines exampleConfig = Inr exampleLines \<and>
   exampleLines ! 3 = ''Pause: False'' \<and> exampleLines ! 30 = ''CombatNodes: '' \<and>
   exampleLines ! 2 = ''JSTOffset: -7''"
proof -
  from general_pass_text [of exampleConfig] example_lines
  have "\<forall>(i, k, field) \<in> set plainLines.
          exampleLines ! i = k @ '': '' @ documentedText (get exampleConfig field)"
    by blast
  then have "exampleLines ! 3 = ''Pause: '' @ documentedText (get exampleConfig ''generalPause'')"
    and "exampleLines ! 30 = ''CombatNodes: '' @ documentedText (get exampleConfig ''combatCombatNodes'')"
    and "exampleLines ! 2 = ''JSTOffset: '' @ documentedText (get exampleConfig ''generalJSTOffset'')"
    by (simp_all add: plainLines_def)
  then show ?thesis
    using example_lines by (simp add: example_fields decimal.simps digit_char_def)
qed

section \<open>The time lines\<close>

lemma time_lines:
  assumes "pythonConfigLines cfg = Inr out"
  shows "\<forall>(i, k, field) \<in> set timeLines.
           \<exists>t. timeText (get cfg field) = Inr t \<and> out ! i = k @ '': '' @ t"
  using assms
  by (clarsimp simp: pythonConfigLines_def Let_def timeLines_def split: sum.splits)

text \<open>
  C4: on each of the four time lines, a field holding a date of hour \<open>h\<close> (below 24) and
  minute \<open>m\<close> (below 60) gives the two digits of \<open>h\<close> followed by the two digits of \<open>m\<close>,
  zero-padded and with no separator; a null or absent field gives the empty value.
\<close>

theorem time_line_format:
  assumes "pythonConfigLines cfg = Inr out"
  shows "\<forall>(i, k, field) \<in> set timeLines.
           (\<forall>h m txt. get cfg field = JDate (Date h m txt) \<longrightarrow> h < 24 \<longrightarrow> m < 60 \<longrightarrow>
                out ! i = k @ '': '' @ twoDigits h @ twoDigits m) \<and>
           (get cfg field = JNull \<or> get cfg field = JUndefined \<longrightarrow> out ! i = k @ '': '')"
  using time_lines [OF assms]
  by (fastforce simp: timeText_Date timeText_falsy)

theorem time_line_format_witness:
  "pythonConfigLines exampleConfig = Inr exampleLines \<and>
   exampleLines ! 7 = ''SleepStartTime: 0905'' \<and>
   exampleLines ! 10 = ''ExpeditionSleepStartTime: 0000'' \<and>
   exampleLines ! 13 = ''CombatSleepStartTime: '' \<and>
   exampleLines ! 36 = ''RepairTimeLimit: 2359''"
  using time_line_format [OF example_lines] example_lines
  by (simp add: timeLines_def example_fields twoDigits_def digit_char_def)

section \<open>The node pairs and the option tags\<close>

text \<open>
  C5: each of the three node lines is, when the normalised values of both node fields
  are truthy, those two values joined by a comma, and the empty value otherwise.
\<close>

theorem lbas_group_nodes:
  assumes "pythonConfigLines cfg = Inr out"
  shows "\<forall>(i, k, node1, node2) \<in> set lbasLines.
           out ! i = k @ '': '' @
             (let n1 = normalized (get cfg node1); n2 = normalized (get cfg node2)
              in if ToBoolean n1 \<and> ToBoolean n2 then ToString n1 @ '','' @ ToString n2
                 else '''')"
  using assms
  by (clarsimp simp: pythonConfigLines_def Let_def lbasLines_def groupNodes_def get_configTemp
        split: sum.splits)

theorem lbas_group_nodes_witness:
  "pythonConfigLines exampleConfig = Inr exampleLines \<and>
   exampleLines ! 38 = ''LBASGroup1Nodes: A2,B3'' \<and>
   exampleLines ! 39 = ''LBASGroup2Nodes: '' \<and>
   exampleLines ! 40 = ''LBASGroup3Nodes: ''"
  using lbas_group_nodes [OF example_lines] example_lines
  by (simp add: lbasLines_def example_fields)

lemma misc_line:
  assumes "pythonConfigLines cfg = Inr out"
  shows "out ! 42 = ''MiscOptions: '' @ join '','' (combatOptions cfg)"
  using assms
  by (clarsimp simp: pythonConfigLines_def Let_def split: sum.splits)

text \<open>
  C6: with the four option fields holding booleans, the \<open>MiscOptions\<close> value is the
  comma-joined list of the tags whose raw field is \<open>true\<close>, in the order CheckFatigue,
  ReserveDocks, PortCheck, ClearStop.
\<close>

theorem misc_options:
  assumes "get cfg ''combatOptionCheckFatigue'' = JBool checkFatigue"
    and "get cfg ''combatOptionReserveDocks'' = JBool reserveDocks"
    and "get cfg ''combatOptionPortCheck'' = JBool portCheck"
    and "get cfg ''combatOptionClearStop'' = JBool clearStop"
    and "pythonConfigLines cfg = Inr out"
  shows "out ! 42 = ''MiscOptions: '' @
           join '','' (map snd (filter fst
             [(checkFatigue, ''CheckFatigue''), (reserveDocks, ''ReserveDocks''),
              (portCheck, ''PortCheck''), (clearStop, ''ClearStop'')]))"
proof -
  have "combatOptions cfg =
          map snd (filter fst
             [(checkFatigue, ''CheckFatigue''), (reserveDocks, ''ReserveDocks''),
              (portCheck, ''PortCheck''), (clearStop, ''ClearStop'')])"
    using assms(1-4) by (simp add: combatOptions_def)
  with misc_line [OF assms(5)] show ?thesis by simp
qed

theorem misc_options_witness:
  "get exampleConfig ''combatOptionCheckFatigue'' = JBool True \<and>
   get exampleConfig ''combatOptionReserveDocks'' = JBool False \<and>
   get exampleConfig ''combatOptionPortCheck'' = JBool True \<and>
   get exampleConfig ''combatOptionClearStop'' = JBool False \<and>
   pythonConfigLines exampleConfig = Inr exampleLines \<and>
   exampleLines ! 42 = ''MiscOptions: CheckFatigue,PortCheck''"
  using misc_options [OF example_fields(14-17) example_lines] example_lines
  by (simp add: example_fields)

section \<open>The ship-switcher slots\<close>

lemma slot_lines:
  assumes "pythonConfigLines cfg = Inr out"
  shows "\<forall>(i, criteria, ships) \<in> set slotLines.
           out ! i =
             slotKey criteria @ '': '' @ ToString (get (blankSlots (configTemp cfg)) criteria) \<and>
           out ! (i + 1) =
             slotKey ships @ '': '' @ ToString (get (blankSlots (configTemp cfg)) ships)"
  using assms
  by (clarsimp simp: pythonConfigLines_def Let_def slotLines_def slotKey_def split: sum.splits)

lemma blankSlots_slot:
  assumes "(i, criteria, ships) \<in> set slotLines"
  shows "get (blankSlots t) criteria =
           (if \<not> ToBoolean (get t criteria) \<or> \<not> ToBoolean (get t ships) then JStr ''''
            else get t criteria)"
    and "get (blankSlots t) ships =
           (if \<not> ToBoolean (get t criteria) \<or> \<not> ToBoolean (get t ships) then JStr ''''
            else get t ships)"
  using assms by (auto simp: slotLines_def blankSlots_def get_blankSlot)

lemma slot_values:
  assumes "(i, criteria, ships) \<in> set slotLines"
  shows "get (blankSlots (configTemp cfg)) criteria =
           (if blankingValue (get cfg criteria) \<or> blankingValue (get cfg ships) then JStr ''''
            else normalized (get cfg criteria))"
    and "get (blankSlots (configTemp cfg)) ships =
           (if blankingValue (get cfg criteria) \<or> blankingValue (get cfg ships) then JStr ''''
            else normalized (get cfg ships))"
  using blankSlots_slot [OF assms, of "configTemp cfg"]
  by (simp_all add: get_configTemp ToBoolean_normalized)

text \<open>
  C7: for each of the six slots, if the normalised criteria value or the normalised ships
  value is falsy, both lines of the slot have the empty value; otherwise both lines carry
  their normalised value unchanged.
\<close>

theorem slot_all_or_nothing:
  assumes "pythonConfigLines cfg = Inr out"
  shows "\<forall>(i, criteria, ships) \<in> set slotLines.
           (let c = normalized (get cfg criteria); s = normalized (get cfg ships)
            in if \<not> ToBoolean c \<or> \<not> ToBoolean s
               then out ! i = slotKey criteria @ '': '' \<and> out ! (i + 1) = slotKey ships @ '': ''
               else out ! i = slotKey criteria @ '': '' @ ToString c \<and>
                    out ! (i + 1) = slotKey ships @ '': '' @ ToString s)"
proof (intro ballI)
  fix x assume x: "x \<in> set slotLines"
  obtain i criteria ships where eq: "x = (i, criteria, ships)" by (cases x)
  from slot_lines [OF assms] x eq
  have "out ! i =
          slotKey criteria @ '': '' @ ToString (get (blankSlots (configTemp cfg)) criteria)"
    and "out ! (i + 1) =
          slotKey ships @ '': '' @ ToString (get (blankSlots (configTemp cfg)) ships)"
    by auto
  then show "case x of (i, criteria, ships) \<Rightarrow>
           (let c = normalized (get cfg criteria); s = normalized (get cfg ships)
            in if \<not> ToBoolean c \<or> \<not> ToBoolean s
               then out ! i = slotKey criteria @ '': '' \<and> out ! (i + 1) = slotKey ships @ '': ''
               else out ! i = slotKey criteria @ '': '' @ ToString c \<and>
                    out ! (i + 1) = slotKey ships @ '': '' @ ToString s)"
    using slot_values [OF x [unfolded eq], of cfg]
    by (simp add: eq Let_def ToBoolean_normalized)
qed

theorem slot_all_or_nothing_witness:
  "pythonConfigLines exampleConfig = Inr exampleLines \<and>
   exampleLines ! 46 = ''Slot1Criteria: '' \<and> exampleLines ! 47 = ''Slot1Ships: '' \<and>
   exampleLines ! 48 = ''Slot2Criteria: Cond'' \<and> exampleLines ! 49 = ''Slot2Ships: ShipA''"
  using slot_all_or_nothing [OF example_lines] example_lines
  by (simp add: slotLines_def slotKey_def example_fields)

text \<open>
  C10, as stated, fails in its last part: a slot whose criteria value is the number NaN,
  which is none of null, the empty string, the number 0 or an absent field, is blanked
  although its ships value is a non-empty string.
\<close>

theorem nan_criteria_blanks_slot:
  "\<not> statedBlankingValue (get nanSlotConfig ''shipSwitcherSlot1Criteria'') \<and>
   \<not> statedBlankingValue (get nanSlotConfig ''shipSwitcherSlot1Ships'') \<and>
   get (blankSlots (configTemp nanSlotConfig)) ''shipSwitcherSlot1Criteria'' = JStr '''' \<and>
   get (blankSlots (configTemp nanSlotConfig)) ''shipSwitcherSlot1Ships'' = JStr '''' \<and>
   \<not> isl (pythonConfigLines nanSlotConfig) \<and>
   projr (pythonConfigLines nanSlotConfig) ! 46 = ''Slot1Criteria: '' \<and>
   projr (pythonConfigLines nanSlotConfig) ! 47 = ''Slot1Ships: ''"
  by code_simp

text \<open>
  C10, amended: the test of a slot runs on the normalised values, where \<open>false\<close> has become
  the truthy text \<open>False\<close>; so a slot whose criteria is \<open>false\<close> and whose ships value is
  truthy after normalisation is not blanked, and its criteria line reads \<open>False\<close>. A slot
  ends up with both fields blank exactly when its criteria or its ships value is null, the
  empty string, the number 0, the number NaN, or absent.
\<close>

theorem slot_blanking_values:
  "\<forall>(i, criteria, ships) \<in> set slotLines.
     ((get (blankSlots (configTemp cfg)) criteria = JStr '''' \<and>
       get (blankSlots (configTemp cfg)) ships = JStr '''') \<longleftrightarrow>
      (blankingValue (get cfg criteria) \<or> blankingValue (get cfg ships))) \<and>
     (get cfg criteria = JBool False \<and> ToBoolean (normalized (get cfg ships)) \<longrightarrow>
        (\<forall>out. pythonConfigLines cfg = Inr out \<longrightarrow>
           out ! i = slotKey criteria @ '': False'' \<and>
           out ! (i + 1) = slotKey ships @ '': '' @ ToString (normalized (get cfg ships))))"
proof (intro ballI)
  fix x assume x: "x \<in> set slotLines"
  obtain i criteria ships where eq: "x = (i, criteria, ships)" by (cases x)
  note vals = slot_values [OF x [unfolded eq], of cfg]
  have iff: "(get (blankSlots (configTemp cfg)) criteria = JStr '''' \<and>
       get (blankSlots (configTemp cfg)) ships = JStr '''') \<longleftrightarrow>
      (blankingValue (get cfg criteria) \<or> blankingValue (get cfg ships))"
    using normalized_not_empty [of "get cfg criteria"] by (auto simp: vals)
  have line: "out ! i = slotKey criteria @ '': False'' \<and>
           out ! (i + 1) = slotKey ships @ '': '' @ ToString (normalized (get cfg ships))"
    if "get cfg criteria = JBool False" "ToBoolean (normalized (get cfg ships))"
       "pythonConfigLines cfg = Inr out" for out
  proof -
    have "\<not> blankingValue (get cfg criteria)" "\<not> blankingValue (get cfg ships)"
      using that(1,2) by (simp_all add: blankingValue_def ToBoolean_normalized)
    with slot_lines [OF that(3)] x that(1) show ?thesis
      by (auto simp: vals eq)
  qed
  from iff line show "case x of (i, criteria, ships) \<Rightarrow>
     ((get (blankSlots (configTemp cfg)) criteria = JStr '''' \<and>
       get (blankSlots (configTemp cfg)) ships = JStr '''') \<longleftrightarrow>
      (blankingValue (get cfg criteria) \<or> blankingValue (get cfg ships))) \<and>
     (get cfg criteria = JBool False \<and> ToBoolean (normalized (get cfg ships)) \<longrightarrow>
        (\<forall>out. pythonConfigLines cfg = Inr out \<longrightarrow>
           out ! i = slotKey criteria @ '': False'' \<and>
           out ! (i + 1) = slotKey ships @ '': '' @ ToString (normalized (get cfg ships))))"
    by (simp add: eq)
qed

theorem slot_blanking_values_witness:
  "get exampleConfig ''shipSwitcherSlot3Criteria'' = JBool False \<and>
   ToBoolean (normalized (get exampleConfig ''shipSwitcherSlot3Ships'')) \<and>
   pythonConfigLines exampleConfig = Inr exampleLines \<and>
   exampleLines ! 50 = ''Slot3Criteria: False'' \<and>
   exampleLines ! 51 = ''Slot3Ships: ShipB'' \<and>
   blankingValue (get exampleConfig ''shipSwitcherSlot1Ships'') \<and>
   get (blankSlots (configTemp exampleConfig)) ''shipSwitcherSlot1Criteria'' = JStr ''''"
  using slot_blanking_values [of exampleConfig] example_lines
  by (simp add: slotLines_def slotKey_def example_fields blankingValue_def)

section \<open>Behaviour of the reducers\<close>

text \<open>The default record, whatever the clock.\<close>

lemma defaults_length: "length (jsonConfigDefaults c) = 64"
  by (simp add: jsonConfigDefaults_def)

lemma defaults_distinct: "distinct (map fst (jsonConfigDefaults c))"
  by code_simp

lemma defaults_plain:
  "list_all (\<lambda>(i, k, field). map_of (jsonConfigDefaults c) field \<noteq> None) plainLines"
  by code_simp

lemma defaults_times:
  "list_all (\<lambda>(i, k, field). isDate (get (jsonConfigDefaults c) field)) timeLines"
  by code_simp

lemma defaults_nodes:
  "list_all (\<lambda>(i, k, node1, node2).
      get (jsonConfigDefaults c) node1 = JNull \<and> get (jsonConfigDefaults c) node2 = JNull)
     lbasLines"
  by code_simp

lemma defaults_slots:
  "list_all (\<lambda>(i, criteria, ships).
      get (jsonConfigDefaults c) criteria = JNull \<and> get (jsonConfigDefaults c) ships = JNull)
     slotLines"
  by code_simp

lemma defaults_options:
  "list_all (\<lambda>field. get (jsonConfigDefaults c) field = JBool False) optionFields"
  by code_simp

lemma defaults_offset: "get (jsonConfigDefaults c) ''generalJSTOffset'' = JNum (jstOffset c)"
  by (simp add: jsonConfigDefaults_def get_def)

text \<open>The default record under the three sample clocks.\<close>

lemma default_lines: "pythonConfigLines (jsonConfigDefaults exampleClock) = Inr defaultLines"
  by code_simp

lemma halfHour_offset: "jstOffset halfHourClock = OtherNumber ''-3.5''"
  by code_simp

lemma skippedMidnight_start:
  "get (jsonConfigDefaults skippedMidnightClock) ''scheduledSleepSleepStartTime'' =
     JDate (Date 1 0 ''Sun Mar 08 2026 01:00:00 GMT-0400'')"
  by code_simp

text \<open>
  C8: each reducer returns the configuration carried by its own set action, as it is, and
  its state unchanged on any other action. With no state yet, the state of \<open>pythonConfig\<close>
  is the empty sequence and the state of \<open>jsonConfig\<close> is the default record: 64 fields
  with distinct names, among them every field the serialisation reads, with a date in each
  of the four time fields, null in every node and slot field, \<open>false\<close> in every option
  flag and the offset of the clock's time zone from Japan; the serialisation of that
  record returns.
\<close>

theorem reducers_replace_or_keep:
  "(type a = SET_JSON_CONFIG \<longrightarrow> jsonConfig SET_JSON_CONFIG c st a = config a) \<and>
   (type a \<noteq> SET_JSON_CONFIG \<longrightarrow>
      jsonConfig SET_JSON_CONFIG c (Some s) a = s \<and>
      jsonConfig SET_JSON_CONFIG c None a = jsonConfigDefaults c) \<and>
   jsonConfig SET_JSON_CONFIG c st (setJsonConfigSuccess SET_JSON_CONFIG cfg) = cfg \<and>
   (type b = SET_PYTHON_CONFIG \<longrightarrow> pythonConfig SET_PYTHON_CONFIG pst b = config b) \<and>
   (type b \<noteq> SET_PYTHON_CONFIG \<longrightarrow>
      pythonConfig SET_PYTHON_CONFIG (Some ps) b = ps \<and>
      pythonConfig SET_PYTHON_CONFIG None b = []) \<and>
   pythonConfig SET_PYTHON_CONFIG pst (setPythonConfigSuccess SET_PYTHON_CONFIG ls) = ls \<and>
   (type a \<noteq> SET_JSON_CONFIG \<longrightarrow>
      (let initial = jsonConfig SET_JSON_CONFIG c None a in
         length initial = 64 \<and>
         distinct (map fst initial) \<and>
         list_all (\<lambda>(i, k, field). map_of initial field \<noteq> None) plainLines \<and>
         list_all (\<lambda>(i, k, field). isDate (get initial field)) timeLines \<and>
         list_all (\<lambda>(i, k, node1, node2).
            get initial node1 = JNull \<and> get initial node2 = JNull) lbasLines \<and>
         list_all (\<lambda>(i, criteria, ships).
            get initial criteria = JNull \<and> get initial ships = JNull) slotLines \<and>
         list_all (\<lambda>field. get initial field = JBool False) optionFields \<and>
         get initial ''generalJSTOffset'' = JNum (jstOffset c) \<and>
         (\<exists>lines. pythonConfigLines initial = Inr lines)))"
proof -
  have replace:
    "(type a = SET_JSON_CONFIG \<longrightarrow> jsonConfig SET_JSON_CONFIG c st a = config a) \<and>
     (type a \<noteq> SET_JSON_CONFIG \<longrightarrow>
        jsonConfig SET_JSON_CONFIG c (Some s) a = s \<and>
        jsonConfig SET_JSON_CONFIG c None a = jsonConfigDefaults c) \<and>
     jsonConfig SET_JSON_CONFIG c st (setJsonConfigSuccess SET_JSON_CONFIG cfg) = cfg \<and>
     (type b = SET_PYTHON_CONFIG \<longrightarrow> pythonConfig SET_PYTHON_CONFIG pst b = config b) \<and>
     (type b \<noteq> SET_PYTHON_CONFIG \<longrightarrow>
        pythonConfig SET_PYTHON_CONFIG (Some ps) b = ps \<and>
        pythonConfig SET_PYTHON_CONFIG None b = []) \<and>
     pythonConfig SET_PYTHON_CONFIG pst (setPythonConfigSuccess SET_PYTHON_CONFIG ls) = ls"
    by (simp add: jsonConfig_def pythonConfig_def setJsonConfigSuccess_def
          setPythonConfigSuccess_def)
  have initial:
    "let initial = jsonConfig SET_JSON_CONFIG c None a in
         length initial = 64 \<and>
         distinct (map fst initial) \<and>
         list_all (\<lambda>(i, k, field). map_of initial field \<noteq> None) plainLines \<and>
         list_all (\<lambda>(i, k, field). isDate (get initial field)) timeLines \<and>
         list_all (\<lambda>(i, k, node1, node2).
            get initial node1 = JNull \<and> get initial node2 = JNull) lbasLines \<and>
         list_all (\<lambda>(i, criteria, ships).
            get initial criteria = JNull \<and> get initial ships = JNull) slotLines \<and>
         list_all (\<lambda>field. get initial field = JBool False) optionFields \<and>
         get initial ''generalJSTOffset'' = JNum (jstOffset c) \<and>
         (\<exists>lines. pythonConfigLines initial = Inr lines)"
    if "type a \<noteq> SET_JSON_CONFIG"
  proof -
    from that have eq: "jsonConfig SET_JSON_CONFIG c None a = jsonConfigDefaults c"
      by (simp add: jsonConfig_def)
    show ?thesis
      unfolding eq Let_def
      by (intro conjI defaults_length defaults_distinct defaults_plain defaults_times
            defaults_nodes defaults_slots defaults_options defaults_offset
            lines_total [OF defaults_usable])
  qed
  from replace initial show ?thesis by blast
qed

theorem reducers_replace_or_keep_witness:
  "jsonConfig ''SET_JSON_CONFIG'' exampleClock (Some stringTimeConfig)
     \<lparr>type = ''SET_JSON_CONFIG'', config = exampleConfig\<rparr> = exampleConfig \<and>
   jsonConfig ''SET_JSON_CONFIG'' exampleClock (Some stringTimeConfig)
     \<lparr>type = ''SET_PYTHON_CONFIG'', config = exampleConfig\<rparr> = stringTimeConfig \<and>
   jsonConfig ''SET_JSON_CONFIG'' exampleClock None
     \<lparr>type = ''SET_PYTHON_CONFIG'', config = exampleConfig\<rparr> = jsonConfigDefaults exampleClock \<and>
   pythonConfig ''SET_PYTHON_CONFIG'' (Some [''[General]''])
     \<lparr>type = ''SET_PYTHON_CONFIG'', config = exampleLines\<rparr> = exampleLines \<and>
   pythonConfig ''SET_PYTHON_CONFIG'' (Some [''[General]''])
     \<lparr>type = ''SET_JSON_CONFIG'', config = exampleLines\<rparr> = [''[General]''] \<and>
   pythonConfig ''SET_PYTHON_CONFIG'' None
     \<lparr>type = ''SET_JSON_CONFIG'', config = exampleLines\<rparr> = [] \<and>
   length (jsonConfig ''SET_JSON_CONFIG'' exampleClock None
     \<lparr>type = ''SET_PYTHON_CONFIG'', config = exampleConfig\<rparr>) = 64 \<and>
   pythonConfigLines (jsonConfig ''SET_JSON_CONFIG'' exampleClock None
     \<lparr>type = ''SET_PYTHON_CONFIG'', config = exampleConfig\<rparr>) = Inr defaultLines \<and>
   get (jsonConfig ''SET_JSON_CONFIG'' halfHourClock None
     \<lparr>type = ''SET_PYTHON_CONFIG'', config = exampleConfig\<rparr>) ''generalJSTOffset'' =
     JNum (OtherNumber ''-3.5'') \<and>
   get (jsonConfig ''SET_JSON_CONFIG'' skippedMidnightClock None
     \<lparr>type = ''SET_PYTHON_CONFIG'', config = exampleConfig\<rparr>) ''scheduledSleepSleepStartTime'' =
     JDate (Date 1 0 ''Sun Mar 08 2026 01:00:00 GMT-0400'')"
proof -
  let ?other = "\<lparr>type = ''SET_PYTHON_CONFIG'', config = exampleConfig\<rparr>"
  note r = reducers_replace_or_keep
    [where SET_JSON_CONFIG = "''SET_JSON_CONFIG''" and st = "Some stringTimeConfig"
       and s = stringTimeConfig and cfg = exampleConfig
       and SET_PYTHON_CONFIG = "''SET_PYTHON_CONFIG''" and pst = "Some [''[General]'']"
       and ps = "[''[General]'']" and ls = exampleLines]
  have init: "jsonConfig ''SET_JSON_CONFIG'' c None ?other = jsonConfigDefaults c" for c
    using r [where a = ?other and c = c, THEN conjunct2, THEN conjunct1] by simp
  have keep: "jsonConfig ''SET_JSON_CONFIG'' exampleClock (Some stringTimeConfig) ?other =
                stringTimeConfig"
    using r [where a = ?other and c = exampleClock, THEN conjunct2, THEN conjunct1] by simp
  have replace: "jsonConfig ''SET_JSON_CONFIG'' exampleClock (Some stringTimeConfig)
                   \<lparr>type = ''SET_JSON_CONFIG'', config = exampleConfig\<rparr> = exampleConfig"
    using r [where a = "\<lparr>type = ''SET_JSON_CONFIG'', config = exampleConfig\<rparr>"
               and c = exampleClock, THEN conjunct1]
    by simp
  have python_replace:
    "pythonConfig ''SET_PYTHON_CONFIG'' (Some [''[General]''])
       \<lparr>type = ''SET_PYTHON_CONFIG'', config = exampleLines\<rparr> = exampleLines"
    using r [where b = "\<lparr>type = ''SET_PYTHON_CONFIG'', config = exampleLines\<rparr>",
             THEN conjunct2, THEN conjunct2, THEN conjunct2, THEN conjunct1]
    by simp
  have python_keep:
    "pythonConfig ''SET_PYTHON_CONFIG'' (Some [''[General]''])
       \<lparr>type = ''SET_JSON_CONFIG'', config = exampleLines\<rparr> = [''[General]''] \<and>
     pythonConfig ''SET_PYTHON_CONFIG'' None
       \<lparr>type = ''SET_JSON_CONFIG'', config = exampleLines\<rparr> = []"
    using r [where b = "\<lparr>type = ''SET_JSON_CONFIG'', config = exampleLines\<rparr>",
             THEN conjunct2, THEN conjunct2, THEN conjunct2, THEN conjunct2, THEN conjunct1]
    by simp
  have len: "length (jsonConfig ''SET_JSON_CONFIG'' exampleClock None ?other) = 64"
    using r [where a = ?other and c = exampleClock, THEN conjunct2, THEN conjunct2,
             THEN conjunct2, THEN conjunct2, THEN conjunct2, THEN conjunct2]
    by (simp add: Let_def)
  have offset: "get (jsonConfig ''SET_JSON_CONFIG'' halfHourClock None ?other)
                  ''generalJSTOffset'' = JNum (OtherNumber ''-3.5'')"
    using r [where a = ?other and c = halfHourClock, THEN conjunct2, THEN conjunct2,
             THEN conjunct2, THEN conjunct2, THEN conjunct2, THEN conjunct2]
    by (simp add: Let_def halfHour_offset)
  show ?thesis
    using keep replace python_replace python_keep len offset default_lines
      skippedMidnight_start
    by (simp add: init)
qed

end
